theory Spec2Isabelle
  imports Complex_Main
begin

section \<open>The user API of app.js\<close>

text \<open>
  The program keeps one array, \<open>usuarios\<close>, of objects \<open>{id, nombre}\<close> in process
  memory and serves it over six routes. Each route handler is modelled as a function
  from the state of the process and the inputs of the request (the route parameter
  \<open>req.params.id\<close>, the body field \<open>req.body.nombre\<close>) to the state afterwards and the
  response.
\<close>

subsection \<open>JavaScript values\<close>

text \<open>
  A string is its list of code units; \<^typ>\<open>char\<close> has 256 values, so the model covers
  the strings whose code units are below 256. A number of a JSON body is a rational.
  \<open>JUndefined\<close> is what reading a property that the body does not have gives.
\<close>

datatype jsval =
    JUndefined
  | JNull
  | JBool bool
  | JNumber rat
  | JString string
  | JArray "jsval list"
  | JObject "(string \<times> jsval) list"

subsection \<open>parseInt\<close>

text \<open>
  \<open>parseInt(string)\<close> with no radix, as ECMAScript defines it: leading white space is
  skipped, one sign is read, a prefix \<open>0x\<close> or \<open>0X\<close> selects radix 16 (radix 10
  otherwise), and the longest run of digits of that radix is the number; the rest of
  the string is ignored. With no digit the result is \<open>NaN\<close>, here \<open>None\<close>.
  The result is given as the exact integer. JavaScript rounds it to a double, which
  changes it only from \<open>2^53\<close> on; the ids it is compared with are array lengths plus
  one, far below that, so the comparison has the same outcome.
\<close>

definition StrWhiteSpaceChar :: "char \<Rightarrow> bool" where
  "StrWhiteSpaceChar c \<longleftrightarrow>
     c \<in> set [CHR 0x09, CHR 0x0A, CHR 0x0B, CHR 0x0C, CHR 0x0D, CHR 0x20, CHR 0xA0]"

definition digits :: "(char \<times> nat) list" where
  "digits =
     [(CHR ''0'', 0), (CHR ''1'', 1), (CHR ''2'', 2), (CHR ''3'', 3), (CHR ''4'', 4),
      (CHR ''5'', 5), (CHR ''6'', 6), (CHR ''7'', 7), (CHR ''8'', 8), (CHR ''9'', 9),
      (CHR ''a'', 10), (CHR ''b'', 11), (CHR ''c'', 12), (CHR ''d'', 13), (CHR ''e'', 14),
      (CHR ''f'', 15),
      (CHR ''A'', 10), (CHR ''B'', 11), (CHR ''C'', 12), (CHR ''D'', 13), (CHR ''E'', 14),
      (CHR ''F'', 15)]"

definition digitValue :: "nat \<Rightarrow> char \<Rightarrow> nat option" where
  "digitValue R c =
     (case map_of digits c of
        None \<Rightarrow> None
      | Some d \<Rightarrow> if d < R then Some d else None)"

definition parseInt :: "string \<Rightarrow> int option" where
  "parseInt inputString =
     (let S = dropWhile StrWhiteSpaceChar inputString;
          sign = (if take 1 S = ''-'' then - 1 else 1);
          S1 = (if take 1 S = ''+'' \<or> take 1 S = ''-'' then drop 1 S else S);
          hex = (take 2 S1 = ''0x'' \<or> take 2 S1 = ''0X'');
          R = (if hex then 16 else 10);
          S2 = (if hex then drop 2 S1 else S1);
          Z = takeWhile (\<lambda>c. digitValue R c \<noteq> None) S2
      in if Z = [] then None
         else Some (sign * int (foldl (\<lambda>n c. n * R + the (digitValue R c)) 0 Z)))"

subsection \<open>The array of users\<close>

text \<open>
  \<open>usuarios\<close> is an array of references to objects: \<open>find\<close> hands out such a
  reference, PUT writes through it and \<open>indexOf\<close> compares references. So the state is
  a heap of user objects, the array of references, and the next address that object
  creation will use. No object lives at that address or above; what the heap gives
  there is never read. The field \<open>id\<close> is written \<open>id'\<close>.
\<close>

type_synonym ref = nat

record usuario =
  id' :: int
  nombre :: jsval

record server =
  heap :: "ref \<Rightarrow> usuario"
  usuarios :: "ref list"
  next_ref :: ref

definition usuarios0 :: server where
  "usuarios0 =
     \<lparr>heap = (\<lambda>_. \<lparr>id' = 0, nombre = JUndefined\<rparr>)
         (0 := \<lparr>id' = 1, nombre = JString ''Juan''\<rparr>,
          1 := \<lparr>id' = 2, nombre = JString ''Ana''\<rparr>,
          2 := \<lparr>id' = 3, nombre = JString ''Karen''\<rparr>,
          3 := \<lparr>id' = 4, nombre = JString ''Luis''\<rparr>),
      usuarios = [0, 1, 2, 3],
      next_ref = 4\<rparr>"

definition records :: "server \<Rightarrow> usuario list" where
  "records s = map (heap s) (usuarios s)"

text \<open>
  The references of the array are those of separate, allocated objects. The initial
  state has this property and every handler keeps it.
\<close>

definition wf_server :: "server \<Rightarrow> bool" where
  "wf_server s \<longleftrightarrow> distinct (usuarios s) \<and> list_all (\<lambda>r. r < next_ref s) (usuarios s)"

text \<open>
  \<open>Array.prototype.indexOf\<close> gives the first index holding the reference, or \<open>-1\<close>;
  \<open>splice(index, 1)\<close> removes one element at \<open>index\<close>, a negative index counting from
  the end.
\<close>

fun indexOf :: "ref list \<Rightarrow> ref \<Rightarrow> int" where
  "indexOf [] r = - 1"
| "indexOf (x # xs) r =
     (if x = r then 0 else (let i = indexOf xs r in if i < 0 then - 1 else i + 1))"

definition splice1 :: "ref list \<Rightarrow> int \<Rightarrow> ref list" where
  "splice1 xs index =
     (let len = int (length xs);
          start = (if index < 0 then max (len + index) 0 else min index len)
      in take (nat start) xs @ drop (nat start + 1) xs)"

definition existeUsuario :: "server \<Rightarrow> string \<Rightarrow> ref option" where
  "existeUsuario s idp = find (\<lambda>u. Some (id' (heap s u)) = parseInt idp) (usuarios s)"

subsection \<open>The validator\<close>

text \<open>
  \<open>schema.validate\<close> returns an object \<open>{value, error}\<close>: \<open>value.nombre\<close> is the
  validated name and \<open>error\<close> is undefined when the name passes. An error is
  identified by the rule that failed; \<open>error.details[0].message\<close> is its text.
\<close>

datatype joi_error = Any_required | String_base | String_empty | String_min

record validation =
  value_nombre :: jsval
  error :: "joi_error option"

text \<open>
  Modelled from the spec: the Joi library is not part of the sources. Its errors
  carry a human-readable message describing the violated constraint (section 4.2 of
  the specification); the texts are the ones Joi gives for the key \<open>nombre\<close>.
\<close>

definition message :: "joi_error \<Rightarrow> string" where
  \<open>message e =
     (case e of
        Any_required \<Rightarrow> ''"nombre" is required''
      | String_base \<Rightarrow> ''"nombre" must be a string''
      | String_empty \<Rightarrow> ''"nombre" is not allowed to be empty''
      | String_min \<Rightarrow> ''"nombre" length must be at least 3 characters long'')\<close>

text \<open>
  Modelled from the spec: the Joi library, whose \<open>schema.validate\<close> decides what
  \<open>validarUsuario\<close> returns, is not part of the sources. The schema of the source,
  \<open>Joi.string().min(3).required()\<close>, is given the meaning of section 4.2 of the
  specification: validation fails when the name is absent or shorter than 3 characters
  and otherwise succeeds with the name. \<open>required()\<close> refuses the undefined value,
  \<open>string()\<close> admits strings only, and not the empty one, \<open>min(3)\<close> compares the
  length of the string with 3; the value returned is the value given.
\<close>

definition joi_string_min_required :: "nat \<Rightarrow> jsval \<Rightarrow> validation" where
  "joi_string_min_required limit v =
     (case v of
        JUndefined \<Rightarrow> \<lparr>value_nombre = v, error = Some Any_required\<rparr>
      | JString str \<Rightarrow>
          if str = [] then \<lparr>value_nombre = v, error = Some String_empty\<rparr>
          else if length str < limit then \<lparr>value_nombre = v, error = Some String_min\<rparr>
          else \<lparr>value_nombre = v, error = None\<rparr>
      | _ \<Rightarrow> \<lparr>value_nombre = v, error = Some String_base\<rparr>)"

definition validarUsuario :: "jsval \<Rightarrow> validation" where
  "validarUsuario nom = joi_string_min_required 3 nom"

subsection \<open>Responses\<close>

text \<open>
  A response starts with status 200 and nothing sent. \<open>res.status\<close> sets the status;
  the first \<open>res.send\<close> puts the status and the body on the wire. Express answers a
  later \<open>send\<close> on the same response in one of two ways: with a body it sets headers,
  which raises \<open>ERR_HTTP_HEADERS_SENT\<close>; with \<open>undefined\<close> it sets none and ends a
  response that has ended, which does nothing.
\<close>

datatype payload =
    Text string
  | Json usuario
  | JsonArray "usuario list"
  | Undefined

record response =
  statusCode :: nat
  sent :: "(nat \<times> payload) option"
  headers_sent_error :: bool

definition res0 :: response where
  "res0 = \<lparr>statusCode = 200, sent = None, headers_sent_error = False\<rparr>"

definition status :: "nat \<Rightarrow> response \<Rightarrow> response" where
  "status code r = r\<lparr>statusCode := code\<rparr>"

definition send :: "payload \<Rightarrow> response \<Rightarrow> response" where
  "send body r =
     (case sent r of
        None \<Rightarrow> r\<lparr>sent := Some (statusCode r, body)\<rparr>
      | Some _ \<Rightarrow> if body = Undefined then r else r\<lparr>headers_sent_error := True\<rparr>)"

subsection \<open>The route handlers\<close>

text \<open>
  What a request leaves behind: the state of the process, the response, and the
  arguments with which \<open>validarUsuario\<close> was called while the request was handled.
\<close>

record outcome =
  after :: server
  res :: response
  validated :: "jsval list"

definition get_root :: "server \<Rightarrow> outcome" where
  "get_root s = \<lparr>after = s, res = send (Text ''Hola mundo desde Express!'') res0, validated = []\<rparr>"

definition get_usuarios :: "server \<Rightarrow> outcome" where
  "get_usuarios s = \<lparr>after = s, res = send (JsonArray (records s)) res0, validated = []\<rparr>"

text \<open>
  The handler of \<open>GET /api/usuarios/:id\<close> has no \<open>return\<close> after its 404: it goes on to
  \<open>res.send(usuario)\<close> with \<open>usuario\<close> undefined.
\<close>

definition get_usuarios_id :: "server \<Rightarrow> string \<Rightarrow> outcome" where
  "get_usuarios_id s idp =
     (let usuario = existeUsuario s idp;
          res1 = (if usuario = None
                  then send (Text ''El usuario no se encuentra'') (status 404 res0)
                  else res0)
      in \<lparr>after = s,
          res = send (case usuario of None \<Rightarrow> Undefined | Some u \<Rightarrow> Json (heap s u)) res1,
          validated = []\<rparr>)"

definition post_usuarios :: "server \<Rightarrow> jsval \<Rightarrow> outcome" where
  "post_usuarios s body_nombre =
     (let v = validarUsuario body_nombre in
      case error v of
        None \<Rightarrow>
          (let usuario = \<lparr>id' = int (length (usuarios s)) + 1, nombre = body_nombre\<rparr>;
               u = next_ref s;
               s' = s\<lparr>heap := (heap s)(u := usuario),
                      usuarios := usuarios s @ [u],
                      next_ref := Suc u\<rparr>
           in \<lparr>after = s', res = send (Json (heap s' u)) res0, validated = [body_nombre]\<rparr>)
      | Some e \<Rightarrow>
          \<lparr>after = s, res = send (Text (message e)) (status 400 res0),
           validated = [body_nombre]\<rparr>)"

definition put_usuarios_id :: "server \<Rightarrow> string \<Rightarrow> jsval \<Rightarrow> outcome" where
  "put_usuarios_id s idp body_nombre =
     (case existeUsuario s idp of
        None \<Rightarrow>
          \<lparr>after = s, res = send (Text ''El usuario no se encuentra'') (status 404 res0),
           validated = []\<rparr>
      | Some u \<Rightarrow>
          (let v = validarUsuario body_nombre in
           case error v of
             Some e \<Rightarrow>
               \<lparr>after = s, res = send (Text (message e)) (status 400 res0),
                validated = [body_nombre]\<rparr>
           | None \<Rightarrow>
               (let s' = s\<lparr>heap := (heap s)(u := (heap s u)\<lparr>nombre := value_nombre v\<rparr>)\<rparr>
                in \<lparr>after = s', res = send (Json (heap s' u)) res0,
                    validated = [body_nombre]\<rparr>)))"

definition delete_usuarios_id :: "server \<Rightarrow> string \<Rightarrow> outcome" where
  "delete_usuarios_id s idp =
     (case existeUsuario s idp of
        None \<Rightarrow>
          \<lparr>after = s, res = send (Text ''El usuario no se encuentra'') (status 404 res0),
           validated = []\<rparr>
      | Some u \<Rightarrow>
          (let index = indexOf (usuarios s) u;
               s' = s\<lparr>usuarios := splice1 (usuarios s) index\<rparr>
           in \<lparr>after = s', res = send (Json (heap s' u)) res0, validated = []\<rparr>))"

subsection \<open>Requests and runs\<close>

datatype request =
    GET_root
  | GET_usuarios
  | GET_usuarios_id string
  | POST_usuarios jsval
  | PUT_usuarios_id string jsval
  | DELETE_usuarios_id string

fun handle :: "server \<Rightarrow> request \<Rightarrow> outcome" where
  "handle s GET_root = get_root s"
| "handle s GET_usuarios = get_usuarios s"
| "handle s (GET_usuarios_id idp) = get_usuarios_id s idp"
| "handle s (POST_usuarios body_nombre) = post_usuarios s body_nombre"
| "handle s (PUT_usuarios_id idp body_nombre) = put_usuarios_id s idp body_nombre"
| "handle s (DELETE_usuarios_id idp) = delete_usuarios_id s idp"

fun run :: "server \<Rightarrow> request list \<Rightarrow> server" where
  "run s [] = s"
| "run s (req # reqs) = run (after (handle s req)) reqs"

section \<open>Properties\<close>

subsection \<open>The validator\<close>

lemma validarUsuario_ok_iff:
  "error (validarUsuario nom) = None \<longleftrightarrow> (\<exists>str. nom = JString str \<and> 3 \<le> length str)"
  by (cases nom) (auto simp: validarUsuario_def joi_string_min_required_def)

lemma validarUsuario_value: "value_nombre (validarUsuario nom) = nom"
  by (cases nom) (simp_all add: validarUsuario_def joi_string_min_required_def)

lemma message_nonempty: "message e \<noteq> []"
  by (cases e) (simp_all add: message_def)

text \<open>
  C4. A candidate name is the value of \<open>req.body.nombre\<close>. \<open>validarUsuario\<close> returns no
  error exactly when that value is a string of at least 3 characters, and then the
  value it returns is that same string. When the name is absent (\<open>JUndefined\<close>) or a
  string shorter than 3 characters, it returns an error, and the error has a message.
\<close>

theorem validarUsuario_spec:
  "(error (validarUsuario nom) = None \<longleftrightarrow> (\<exists>str. nom = JString str \<and> 3 \<le> length str)) \<and>
   (error (validarUsuario nom) = None \<longrightarrow> value_nombre (validarUsuario nom) = nom) \<and>
   (nom = JUndefined \<or> (\<exists>str. nom = JString str \<and> length str < 3) \<longrightarrow>
      (\<exists>e. error (validarUsuario nom) = Some e \<and> message e \<noteq> []))"
  using validarUsuario_ok_iff [of nom] validarUsuario_value [of nom] message_nonempty
  by (cases "error (validarUsuario nom)") auto

theorem validarUsuario_spec_witness:
  "error (validarUsuario (JString ''Bob'')) = None \<and>
   value_nombre (validarUsuario (JString ''Bob'')) = JString ''Bob'' \<and>
   (\<exists>e. error (validarUsuario (JString ''Bo'')) = Some e \<and> message e \<noteq> []) \<and>
   (\<exists>e. error (validarUsuario JUndefined) = Some e \<and> message e \<noteq> [])"
  using validarUsuario_spec [of "JString ''Bob''"] validarUsuario_spec [of "JString ''Bo''"]
    validarUsuario_spec [of JUndefined]
  by simp

subsection \<open>Lookup\<close>

lemma existeUsuario_None_iff:
  "existeUsuario s idp = None \<longleftrightarrow> (\<forall>u \<in> set (usuarios s). Some (id' (heap s u)) \<noteq> parseInt idp)"
  by (auto simp: existeUsuario_def find_None_iff)

lemma existeUsuario_Some_iff:
  "existeUsuario s idp = Some u \<longleftrightarrow>
     (\<exists>i < length (usuarios s). usuarios s ! i = u \<and> Some (id' (heap s u)) = parseInt idp \<and>
        (\<forall>j < i. Some (id' (heap s (usuarios s ! j))) \<noteq> parseInt idp))"
  by (auto simp: existeUsuario_def find_Some_iff)

lemma existeUsuario_in_set: "existeUsuario s idp = Some u \<Longrightarrow> u \<in> set (usuarios s)"
  by (auto simp: existeUsuario_Some_iff)

lemma existeUsuario_records_None:
  "existeUsuario s idp = None \<longleftrightarrow> (\<forall>x \<in> set (records s). Some (id' x) \<noteq> parseInt idp)"
  by (auto simp: existeUsuario_None_iff records_def)
text \<open>
  C8. \<open>existeUsuario\<close> returns the first record of the store, in array order, whose id
  equals \<open>parseInt\<close> of the input id: the record sits at some index, it has that id and
  no record before it has. It returns nothing exactly when no record of the store has
  that id, which is always so when the input does not parse (\<open>NaN\<close> equals no id).
\<close>

theorem existeUsuario_first_match:
  "(case existeUsuario s idp of
      None \<Rightarrow> \<forall>x \<in> set (records s). Some (id' x) \<noteq> parseInt idp
    | Some u \<Rightarrow>
        \<exists>i < length (records s). usuarios s ! i = u \<and> heap s u = records s ! i \<and>
          Some (id' (records s ! i)) = parseInt idp \<and>
          (\<forall>j < i. Some (id' (records s ! j)) \<noteq> parseInt idp))"
proof (cases "existeUsuario s idp")
  case None
  then have "\<forall>x \<in> set (records s). Some (id' x) \<noteq> parseInt idp"
    by (simp add: existeUsuario_records_None)
  with None show ?thesis by simp
next
  case (Some u)
  then obtain i where "i < length (usuarios s)" "usuarios s ! i = u"
      "Some (id' (heap s u)) = parseInt idp"
      "\<forall>j < i. Some (id' (heap s (usuarios s ! j))) \<noteq> parseInt idp"
    by (auto simp: existeUsuario_Some_iff)
  then have "i < length (records s) \<and> usuarios s ! i = u \<and> heap s u = records s ! i \<and>
      Some (id' (records s ! i)) = parseInt idp \<and>
      (\<forall>j < i. Some (id' (records s ! j)) \<noteq> parseInt idp)"
    by (simp add: records_def)
  with Some show ?thesis by auto
qed

theorem existeUsuario_first_match_witness:
  "existeUsuario usuarios0 ''3'' = Some 2 \<and> heap usuarios0 2 = \<lparr>id' = 3, nombre = JString ''Karen''\<rparr> \<and>
   (\<exists>i < length (records usuarios0). usuarios usuarios0 ! i = 2 \<and>
      (\<forall>j < i. Some (id' (records usuarios0 ! j)) \<noteq> parseInt ''3'')) \<and>
   existeUsuario usuarios0 ''abc'' = None \<and>
   \<not> (\<exists>x \<in> set (records usuarios0). Some (id' x) = parseInt ''abc'')"
proof -
  have a: "existeUsuario usuarios0 ''3'' = Some 2" by code_simp
  have b: "existeUsuario usuarios0 ''abc'' = None" by code_simp
  have c: "heap usuarios0 2 = \<lparr>id' = 3, nombre = JString ''Karen''\<rparr>" by code_simp
  show ?thesis
    using existeUsuario_first_match [of usuarios0 "''3''"]
      existeUsuario_first_match [of usuarios0 "''abc''"] a b c
    by auto
qed

subsection \<open>Responses and GET\<close>

lemma send_res0:
  "send body res0 = \<lparr>statusCode = 200, sent = Some (200, body), headers_sent_error = False\<rparr>"
  by (simp add: send_def res0_def)

lemma send_status_res0:
  "send body (status code res0) = \<lparr>statusCode = code, sent = Some (code, body), headers_sent_error = False\<rparr>"
  by (simp add: send_def status_def res0_def)

lemma send_Undefined_sent: "sent r \<noteq> None \<Longrightarrow> send Undefined r = r"
  by (auto simp: send_def)

lemma get_usuarios_id_None:
  "existeUsuario s idp = None \<Longrightarrow>
   get_usuarios_id s idp =
     \<lparr>after = s,
      res = \<lparr>statusCode = 404, sent = Some (404, Text ''El usuario no se encuentra''),
             headers_sent_error = False\<rparr>,
      validated = []\<rparr>"
  by (simp add: get_usuarios_id_def send_status_res0 send_Undefined_sent)

lemma get_usuarios_id_Some:
  "existeUsuario s idp = Some u \<Longrightarrow>
   get_usuarios_id s idp =
     \<lparr>after = s,
      res = \<lparr>statusCode = 200, sent = Some (200, Json (heap s u)), headers_sent_error = False\<rparr>,
      validated = []\<rparr>"
  by (simp add: get_usuarios_id_def send_res0)
text \<open>
  C2. For every id the handler of \<open>GET /api/usuarios/:id\<close> leaves one response on the
  wire: status 200 with the JSON of a record that has this id when the store holds such
  a record, and status 404 with the text message when it holds none. In the second case
  the handler still reaches its last \<open>res.send\<close>, with an undefined body, on the
  response that is already sent; nothing more is sent and no error is raised.
\<close>

theorem get_usuarios_id_response:
  "(if \<exists>x \<in> set (records s). Some (id' x) = parseInt idp
    then \<exists>x \<in> set (records s). Some (id' x) = parseInt idp \<and>
           res (get_usuarios_id s idp) =
             \<lparr>statusCode = 200, sent = Some (200, Json x), headers_sent_error = False\<rparr>
    else res (get_usuarios_id s idp) =
           \<lparr>statusCode = 404, sent = Some (404, Text ''El usuario no se encuentra''),
            headers_sent_error = False\<rparr>)"
proof (cases "existeUsuario s idp")
  case None
  then have "\<not> (\<exists>x \<in> set (records s). Some (id' x) = parseInt idp)"
    by (simp add: existeUsuario_records_None)
  with None show ?thesis by (simp add: get_usuarios_id_None)
next
  case (Some u)
  then have "u \<in> set (usuarios s)" "Some (id' (heap s u)) = parseInt idp"
    by (auto simp: existeUsuario_Some_iff)
  then have "heap s u \<in> set (records s) \<and> Some (id' (heap s u)) = parseInt idp"
    by (simp add: records_def)
  with Some show ?thesis by (auto simp: get_usuarios_id_Some)
qed

theorem get_usuarios_id_response_witness:
  "(\<exists>x \<in> set (records usuarios0). Some (id' x) = parseInt ''1'' \<and>
      res (get_usuarios_id usuarios0 ''1'') =
        \<lparr>statusCode = 200, sent = Some (200, Json x), headers_sent_error = False\<rparr>) \<and>
   \<not> (\<exists>x \<in> set (records usuarios0). Some (id' x) = parseInt ''999'') \<and>
   res (get_usuarios_id usuarios0 ''999'') =
     \<lparr>statusCode = 404, sent = Some (404, Text ''El usuario no se encuentra''),
      headers_sent_error = False\<rparr>"
proof -
  have a: "\<exists>x \<in> set (records usuarios0). Some (id' x) = parseInt ''1''" by code_simp
  have b: "\<not> (\<exists>x \<in> set (records usuarios0). Some (id' x) = parseInt ''999'')" by code_simp
  show ?thesis
    using get_usuarios_id_response [of usuarios0 "''1''"]
      get_usuarios_id_response [of usuarios0 "''999''"] a b
    by simp
qed

subsection \<open>indexOf and splice\<close>

lemma indexOf_ge: "- 1 \<le> indexOf xs r"
  by (induction xs) (auto simp: Let_def)

lemma indexOf_mem: "r \<in> set xs \<Longrightarrow> 0 \<le> indexOf xs r \<and> indexOf xs r < int (length xs)"
  by (induction xs) (auto simp: Let_def)

lemma indexOf_notin: "r \<notin> set xs \<Longrightarrow> indexOf xs r = - 1"
  by (induction xs) (auto simp: Let_def)

lemma splice1_indexOf: "r \<in> set xs \<Longrightarrow> splice1 xs (indexOf xs r) = remove1 r xs"
proof (induction xs)
  case Nil
  then show ?case by simp
next
  case (Cons x xs)
  show ?case
  proof (cases "x = r")
    case True
    then show ?thesis by (simp add: splice1_def)
  next
    case False
    with Cons.prems have mem: "r \<in> set xs" by simp
    from indexOf_mem [OF mem] Cons.IH [OF mem] False show ?thesis
      by (simp add: splice1_def Let_def nat_add_distrib min_def)
  qed
qed

subsection \<open>Handlers by case\<close>

lemma post_usuarios_valid:
  "error (validarUsuario nom) = None \<Longrightarrow>
   post_usuarios s nom =
     \<lparr>after = s\<lparr>heap := (heap s)(next_ref s := \<lparr>id' = int (length (usuarios s)) + 1, nombre = nom\<rparr>),
                 usuarios := usuarios s @ [next_ref s],
                 next_ref := Suc (next_ref s)\<rparr>,
      res = \<lparr>statusCode = 200,
             sent = Some (200, Json \<lparr>id' = int (length (usuarios s)) + 1, nombre = nom\<rparr>),
             headers_sent_error = False\<rparr>,
      validated = [nom]\<rparr>"
  by (simp add: post_usuarios_def Let_def send_res0)

lemma post_usuarios_invalid:
  "error (validarUsuario nom) = Some e \<Longrightarrow>
   post_usuarios s nom =
     \<lparr>after = s,
      res = \<lparr>statusCode = 400, sent = Some (400, Text (message e)), headers_sent_error = False\<rparr>,
      validated = [nom]\<rparr>"
  by (simp add: post_usuarios_def Let_def send_status_res0)

lemma put_usuarios_id_None:
  "existeUsuario s idp = None \<Longrightarrow>
   put_usuarios_id s idp nom =
     \<lparr>after = s,
      res = \<lparr>statusCode = 404, sent = Some (404, Text ''El usuario no se encuentra''),
             headers_sent_error = False\<rparr>,
      validated = []\<rparr>"
  by (simp add: put_usuarios_id_def send_status_res0)

lemma put_usuarios_id_invalid:
  "existeUsuario s idp = Some u \<Longrightarrow> error (validarUsuario nom) = Some e \<Longrightarrow>
   put_usuarios_id s idp nom =
     \<lparr>after = s,
      res = \<lparr>statusCode = 400, sent = Some (400, Text (message e)), headers_sent_error = False\<rparr>,
      validated = [nom]\<rparr>"
  by (simp add: put_usuarios_id_def Let_def send_status_res0)

lemma put_usuarios_id_valid:
  "existeUsuario s idp = Some u \<Longrightarrow> error (validarUsuario nom) = None \<Longrightarrow>
   put_usuarios_id s idp nom =
     \<lparr>after = s\<lparr>heap := (heap s)(u := (heap s u)\<lparr>nombre := value_nombre (validarUsuario nom)\<rparr>)\<rparr>,
      res = \<lparr>statusCode = 200,
             sent = Some (200, Json ((heap s u)\<lparr>nombre := value_nombre (validarUsuario nom)\<rparr>)),
             headers_sent_error = False\<rparr>,
      validated = [nom]\<rparr>"
  by (simp add: put_usuarios_id_def Let_def send_res0)

lemma delete_usuarios_id_None:
  "existeUsuario s idp = None \<Longrightarrow>
   delete_usuarios_id s idp =
     \<lparr>after = s,
      res = \<lparr>statusCode = 404, sent = Some (404, Text ''El usuario no se encuentra''),
             headers_sent_error = False\<rparr>,
      validated = []\<rparr>"
  by (simp add: delete_usuarios_id_def send_status_res0)

lemma delete_usuarios_id_Some:
  "existeUsuario s idp = Some u \<Longrightarrow>
   delete_usuarios_id s idp =
     \<lparr>after = s\<lparr>usuarios := remove1 u (usuarios s)\<rparr>,
      res = \<lparr>statusCode = 200, sent = Some (200, Json (heap s u)), headers_sent_error = False\<rparr>,
      validated = []\<rparr>"
  by (simp add: delete_usuarios_id_def Let_def send_res0 splice1_indexOf existeUsuario_in_set)

subsection \<open>The invariant\<close>

text \<open>
  The initial state satisfies \<open>wf_server\<close> and every handler keeps it, so it holds in
  every state that a sequence of requests can produce.
\<close>

lemma wf_usuarios0: "wf_server usuarios0"
  by (simp add: wf_server_def usuarios0_def)

lemma wf_post: "wf_server s \<Longrightarrow> wf_server (after (post_usuarios s nom))"
  by (cases "error (validarUsuario nom)")
    (auto simp: post_usuarios_valid post_usuarios_invalid wf_server_def list_all_iff)

lemma wf_put: "wf_server s \<Longrightarrow> wf_server (after (put_usuarios_id s idp nom))"
  by (cases "existeUsuario s idp"; cases "error (validarUsuario nom)")
    (auto simp: put_usuarios_id_None put_usuarios_id_invalid put_usuarios_id_valid wf_server_def)

lemma wf_delete: "wf_server s \<Longrightarrow> wf_server (after (delete_usuarios_id s idp))"
  by (cases "existeUsuario s idp")
    (auto simp: delete_usuarios_id_None delete_usuarios_id_Some wf_server_def list_all_iff)

lemma wf_handle: "wf_server s \<Longrightarrow> wf_server (after (handle s req))"
  by (cases req)
    (simp_all add: wf_post wf_put wf_delete get_root_def get_usuarios_def get_usuarios_id_def Let_def)

lemma wf_run: "wf_server s \<Longrightarrow> wf_server (run s reqs)"
  by (induction reqs arbitrary: s) (simp_all add: wf_handle)

lemma wf_reachable: "wf_server (run usuarios0 reqs)"
  by (simp add: wf_run wf_usuarios0)

lemma wf_fresh: "wf_server s \<Longrightarrow> next_ref s \<notin> set (usuarios s)"
  by (auto simp: wf_server_def list_all_iff)

subsection \<open>POST\<close>

text \<open>
  C3. In every state of the store (the invariant holds in all states that requests can
  produce) and for every name that the validator accepts, \<open>POST /api/usuarios\<close> makes
  a record whose id is the length of the store plus one and whose name is the name
  given, puts it at the end of the store behind the records that were there, and
  answers with status 200 and that record.
\<close>

theorem post_usuarios_creates:
  assumes "wf_server s" and "error (validarUsuario nom) = None"
  shows "records (after (post_usuarios s nom)) =
           records s @ [\<lparr>id' = int (length (records s)) + 1, nombre = nom\<rparr>] \<and>
         res (post_usuarios s nom) =
           \<lparr>statusCode = 200,
            sent = Some (200, Json \<lparr>id' = int (length (records s)) + 1, nombre = nom\<rparr>),
            headers_sent_error = False\<rparr>"
  using assms wf_fresh [of s] by (simp add: post_usuarios_valid records_def)

theorem post_usuarios_creates_witness:
  "wf_server usuarios0 \<and> error (validarUsuario (JString ''Bob'')) = None \<and>
   records (after (post_usuarios usuarios0 (JString ''Bob''))) =
     records usuarios0 @ [\<lparr>id' = 5, nombre = JString ''Bob''\<rparr>] \<and>
   res (post_usuarios usuarios0 (JString ''Bob'')) =
     \<lparr>statusCode = 200, sent = Some (200, Json \<lparr>id' = 5, nombre = JString ''Bob''\<rparr>),
      headers_sent_error = False\<rparr>"
proof -
  have a: "wf_server usuarios0" by (simp add: wf_server_def usuarios0_def)
  have b: "error (validarUsuario (JString ''Bob'')) = None" by code_simp
  have c: "int (length (records usuarios0)) + 1 = 5" by code_simp
  show ?thesis using post_usuarios_creates [OF a b] a b c by simp
qed

subsection \<open>PUT\<close>

text \<open>
  C5. When no record of the store has the id of the request, \<open>PUT /api/usuarios/:id\<close>
  answers 404 whatever the body is, leaves the state as it was, and has not called
  \<open>validarUsuario\<close>: the list of validated values is empty.
\<close>

theorem put_unknown_id_skips_validation:
  assumes "\<forall>x \<in> set (records s). Some (id' x) \<noteq> parseInt idp"
  shows "put_usuarios_id s idp nom =
           \<lparr>after = s,
            res = \<lparr>statusCode = 404, sent = Some (404, Text ''El usuario no se encuentra''),
                   headers_sent_error = False\<rparr>,
            validated = []\<rparr>"
  using assms by (simp add: put_usuarios_id_None existeUsuario_records_None)

theorem put_unknown_id_skips_validation_witness:
  "\<not> (\<exists>x \<in> set (records usuarios0). Some (id' x) = parseInt ''999'') \<and>
   error (validarUsuario (JString ''Bo'')) \<noteq> None \<and>
   put_usuarios_id usuarios0 ''999'' (JString ''Bo'') =
     \<lparr>after = usuarios0,
      res = \<lparr>statusCode = 404, sent = Some (404, Text ''El usuario no se encuentra''),
             headers_sent_error = False\<rparr>,
      validated = []\<rparr>"
proof -
  have a: "\<forall>x \<in> set (records usuarios0). Some (id' x) \<noteq> parseInt ''999''" by code_simp
  have b: "error (validarUsuario (JString ''Bo'')) \<noteq> None" by code_simp
  show ?thesis using put_unknown_id_skips_validation [OF a, of "JString ''Bo''"] a b by simp
qed

lemma map_fun_upd_nth:
  "distinct xs \<Longrightarrow> i < length xs \<Longrightarrow> map (f(xs ! i := v)) xs = (map f xs)[i := v]"
  by (rule nth_equalityI) (auto simp: nth_list_update nth_eq_iff_index_eq)
text \<open>
  C7. In every state of the store that satisfies the invariant, when the store holds a
  record with the id of the request and the validator accepts the new name, \<open>PUT /api/usuarios/:id\<close> changes the store at one index only,
  that of the first record with this id, and there only the field \<open>nombre\<close>, which
  becomes the validated name. All ids, all other records and the array of references
  are as before, and the response is status 200 with that record as it now is.
\<close>

theorem put_usuarios_id_updates:
  assumes "wf_server s"
    and "\<exists>x \<in> set (records s). Some (id' x) = parseInt idp"
    and "error (validarUsuario nom) = None"
  shows "\<exists>i < length (records s).
           Some (id' (records s ! i)) = parseInt idp \<and>
           (\<forall>j < i. Some (id' (records s ! j)) \<noteq> parseInt idp) \<and>
           records (after (put_usuarios_id s idp nom)) =
             (records s)[i := (records s ! i)\<lparr>nombre := value_nombre (validarUsuario nom)\<rparr>] \<and>
           map id' (records (after (put_usuarios_id s idp nom))) = map id' (records s) \<and>
           usuarios (after (put_usuarios_id s idp nom)) = usuarios s \<and>
           res (put_usuarios_id s idp nom) =
             \<lparr>statusCode = 200,
              sent = Some (200, Json (records (after (put_usuarios_id s idp nom)) ! i)),
              headers_sent_error = False\<rparr>"
proof -
  let ?v = "value_nombre (validarUsuario nom)"
  from assms(2) have "existeUsuario s idp \<noteq> None"
    by (simp add: existeUsuario_records_None)
  then obtain u where found: "existeUsuario s idp = Some u" by auto
  then obtain i where i: "i < length (usuarios s)" "usuarios s ! i = u"
      "Some (id' (heap s u)) = parseInt idp"
      "\<forall>j < i. Some (id' (heap s (usuarios s ! j))) \<noteq> parseInt idp"
    by (auto simp: existeUsuario_Some_iff)
  from assms(1) have d: "distinct (usuarios s)" by (simp add: wf_server_def)
  have out: "put_usuarios_id s idp nom =
     \<lparr>after = s\<lparr>heap := (heap s)(u := (heap s u)\<lparr>nombre := ?v\<rparr>)\<rparr>,
      res = \<lparr>statusCode = 200, sent = Some (200, Json ((heap s u)\<lparr>nombre := ?v\<rparr>)),
             headers_sent_error = False\<rparr>,
      validated = [nom]\<rparr>"
    using found assms(3) by (rule put_usuarios_id_valid)
  have recs: "records (after (put_usuarios_id s idp nom)) =
      (records s)[i := (records s ! i)\<lparr>nombre := ?v\<rparr>]"
    using map_fun_upd_nth [OF d i(1), of "heap s" "(heap s u)\<lparr>nombre := ?v\<rparr>"] i(1,2)
    by (simp add: out records_def)
  have ids: "map id' ((records s)[i := (records s ! i)\<lparr>nombre := ?v\<rparr>]) = map id' (records s)"
    using i(1) by (simp add: map_update records_def list_update_same_conv)
  have "i < length (records s)" using i(1) by (simp add: records_def)
  moreover have "Some (id' (records s ! i)) = parseInt idp"
    using i(1,2,3) by (simp add: records_def)
  moreover have "\<forall>j < i. Some (id' (records s ! j)) \<noteq> parseInt idp"
    using i(1,4) by (simp add: records_def)
  moreover have "usuarios (after (put_usuarios_id s idp nom)) = usuarios s"
    by (simp add: out)
  moreover have "res (put_usuarios_id s idp nom) =
      \<lparr>statusCode = 200,
       sent = Some (200, Json (records (after (put_usuarios_id s idp nom)) ! i)),
       headers_sent_error = False\<rparr>"
    using i(1,2) by (simp add: recs) (simp add: out records_def)
  ultimately show ?thesis using recs ids by auto
qed

theorem put_usuarios_id_updates_witness:
  "wf_server usuarios0 \<and>
   (\<exists>x \<in> set (records usuarios0). Some (id' x) = parseInt ''2'') \<and>
   error (validarUsuario (JString ''Anna'')) = None \<and>
   (\<exists>i < length (records usuarios0).
      Some (id' (records usuarios0 ! i)) = parseInt ''2'' \<and>
      records (after (put_usuarios_id usuarios0 ''2'' (JString ''Anna''))) =
        (records usuarios0)
          [i := (records usuarios0 ! i)\<lparr>nombre := value_nombre (validarUsuario (JString ''Anna''))\<rparr>])"
proof -
  have a: "wf_server usuarios0" by (simp add: wf_server_def usuarios0_def)
  have b: "\<exists>x \<in> set (records usuarios0). Some (id' x) = parseInt ''2''" by code_simp
  have c: "error (validarUsuario (JString ''Anna'')) = None" by code_simp
  show ?thesis using put_usuarios_id_updates [OF a b c] a b c by blast
qed

subsection \<open>Error responses\<close>

text \<open>
  C9. Whenever a request is answered with status 400 or 404, the state after the
  request (heap, array and next address) is the state before it. Those answers are
  the ones to a POST with an invalid name, a PUT with an unknown id or an invalid name,
  and a DELETE with an unknown id.
\<close>

theorem error_response_keeps_store:
  assumes "sent (res (handle s req)) = Some (code, body)" and "code = 400 \<or> code = 404"
  shows "after (handle s req) = s"
proof (cases req)
  case GET_root
  then show ?thesis by (simp add: get_root_def)
next
  case GET_usuarios
  then show ?thesis by (simp add: get_usuarios_def)
next
  case (GET_usuarios_id idp)
  then show ?thesis by (simp add: get_usuarios_id_def Let_def)
next
  case (POST_usuarios nom)
  with assms show ?thesis
    by (cases "error (validarUsuario nom)")
      (auto simp: post_usuarios_valid post_usuarios_invalid)
next
  case (PUT_usuarios_id idp nom)
  with assms show ?thesis
    by (cases "existeUsuario s idp"; cases "error (validarUsuario nom)")
      (auto simp: put_usuarios_id_None put_usuarios_id_invalid put_usuarios_id_valid)
next
  case (DELETE_usuarios_id idp)
  with assms show ?thesis
    by (cases "existeUsuario s idp")
      (auto simp: delete_usuarios_id_None delete_usuarios_id_Some)
qed

theorem error_response_keeps_store_witness:
  "sent (res (handle usuarios0 (POST_usuarios (JString ''Bo'')))) =
     Some (400, Text (message String_min)) \<and>
   after (handle usuarios0 (POST_usuarios (JString ''Bo''))) = usuarios0 \<and>
   sent (res (handle usuarios0 (PUT_usuarios_id ''999'' (JString ''Bob'')))) =
     Some (404, Text ''El usuario no se encuentra'') \<and>
   after (handle usuarios0 (PUT_usuarios_id ''999'' (JString ''Bob''))) = usuarios0 \<and>
   sent (res (handle usuarios0 (PUT_usuarios_id ''1'' JUndefined))) =
     Some (400, Text (message Any_required)) \<and>
   after (handle usuarios0 (PUT_usuarios_id ''1'' JUndefined)) = usuarios0 \<and>
   sent (res (handle usuarios0 (DELETE_usuarios_id ''999''))) =
     Some (404, Text ''El usuario no se encuentra'') \<and>
   after (handle usuarios0 (DELETE_usuarios_id ''999'')) = usuarios0"
proof -
  have a: "sent (res (handle usuarios0 (POST_usuarios (JString ''Bo'')))) =
      Some (400, Text (message String_min))" by code_simp
  have b: "sent (res (handle usuarios0 (PUT_usuarios_id ''999'' (JString ''Bob'')))) =
      Some (404, Text ''El usuario no se encuentra'')" by code_simp
  have c: "sent (res (handle usuarios0 (PUT_usuarios_id ''1'' JUndefined))) =
      Some (400, Text (message Any_required))" by code_simp
  have d: "sent (res (handle usuarios0 (DELETE_usuarios_id ''999''))) =
      Some (404, Text ''El usuario no se encuentra'')" by code_simp
  show ?thesis
    using error_response_keeps_store [OF a] error_response_keeps_store [OF b]
      error_response_keeps_store [OF c] error_response_keeps_store [OF d] a b c d
    by simp
qed

subsection \<open>The stored name\<close>

text \<open>
  C10, at the example the claim gives. A numeric name is not accepted: the validator
  returns the error of a value that is not a string, and POST and PUT both answer 400
  and store nothing. So no stored values differ there.
\<close>

theorem numeric_nombre_is_rejected:
  "error (validarUsuario (JNumber 12345)) = Some String_base \<and>
   post_usuarios usuarios0 (JNumber 12345) =
     \<lparr>after = usuarios0,
      res = \<lparr>statusCode = 400, sent = Some (400, Text (message String_base)),
             headers_sent_error = False\<rparr>,
      validated = [JNumber 12345]\<rparr> \<and>
   put_usuarios_id usuarios0 ''1'' (JNumber 12345) =
     \<lparr>after = usuarios0,
      res = \<lparr>statusCode = 400, sent = Some (400, Text (message String_base)),
             headers_sent_error = False\<rparr>,
      validated = [JNumber 12345]\<rparr>"
proof -
  have e: "error (validarUsuario (JNumber 12345)) = Some String_base"
    by (simp add: validarUsuario_def joi_string_min_required_def)
  have f: "existeUsuario usuarios0 ''1'' = Some 0" by code_simp
  show ?thesis
    using e post_usuarios_invalid [OF e] put_usuarios_id_invalid [OF f e] by simp
qed

text \<open>
  C10, amended. On a successful POST the stored name is the value of the request body,
  and on a successful PUT it is the value that the validator returns. The validator
  returns every name it accepts unchanged, so for every accepted name the two are the
  same value.
\<close>

theorem post_and_put_store_the_same_nombre:
  assumes "error (validarUsuario nom) = None" and "existeUsuario s idp = Some u"
  shows "nombre (last (records (after (post_usuarios s nom)))) = nom \<and>
         nombre (heap (after (put_usuarios_id s idp nom)) u) = value_nombre (validarUsuario nom) \<and>
         value_nombre (validarUsuario nom) = nom"
  using assms
  by (simp add: post_usuarios_valid put_usuarios_id_valid records_def validarUsuario_value)

theorem post_and_put_store_the_same_nombre_witness:
  "error (validarUsuario (JString ''Bob'')) = None \<and>
   existeUsuario usuarios0 ''1'' = Some 0 \<and>
   nombre (last (records (after (post_usuarios usuarios0 (JString ''Bob''))))) = JString ''Bob'' \<and>
   nombre (heap (after (put_usuarios_id usuarios0 ''1'' (JString ''Bob''))) 0) = JString ''Bob''"
proof -
  have a: "error (validarUsuario (JString ''Bob'')) = None" by code_simp
  have b: "existeUsuario usuarios0 ''1'' = Some 0" by code_simp
  show ?thesis using post_and_put_store_the_same_nombre [OF a b] a b by simp
qed

subsection \<open>Ids after a deletion\<close>

text \<open>
  C1 asks that the ids of the store stay pairwise distinct and that a deleted id is never
  given to a later record. The code numbers a new record with the length of the array
  plus one. From the initial store, deleting user 1 and creating a user gives two
  records with id 4; deleting user 4 and creating a user gives id 4 to the new record.
\<close>

theorem ids_collide_after_delete:
  "records (run usuarios0 [DELETE_usuarios_id ''1'', POST_usuarios (JString ''Bob'')]) =
     [\<lparr>id' = 2, nombre = JString ''Ana''\<rparr>, \<lparr>id' = 3, nombre = JString ''Karen''\<rparr>,
      \<lparr>id' = 4, nombre = JString ''Luis''\<rparr>, \<lparr>id' = 4, nombre = JString ''Bob''\<rparr>] \<and>
   \<not> distinct (map id'
      (records (run usuarios0 [DELETE_usuarios_id ''1'', POST_usuarios (JString ''Bob'')]))) \<and>
   records (run usuarios0 [DELETE_usuarios_id ''4'', POST_usuarios (JString ''Bob'')]) =
     [\<lparr>id' = 1, nombre = JString ''Juan''\<rparr>, \<lparr>id' = 2, nombre = JString ''Ana''\<rparr>,
      \<lparr>id' = 3, nombre = JString ''Karen''\<rparr>, \<lparr>id' = 4, nombre = JString ''Bob''\<rparr>]"
  by code_simp

subsection \<open>DELETE\<close>

lemma delete_removes_first_occurrence:
  assumes "existeUsuario s idp = Some u"
  shows "usuarios (after (delete_usuarios_id s idp)) = remove1 u (usuarios s) \<and>
         heap (after (delete_usuarios_id s idp)) = heap s \<and>
         sent (res (delete_usuarios_id s idp)) = Some (200, Json (heap s u))"
  using assms by (simp add: delete_usuarios_id_Some)

lemma get_after_delete_unique_id:
  assumes "wf_server s" and "distinct (map id' (records s))"
    and "existeUsuario s idp = Some u"
  shows "sent (res (get_usuarios_id (after (delete_usuarios_id s idp)) idp)) =
           Some (404, Text ''El usuario no se encuentra'')"
proof -
  let ?s' = "s\<lparr>usuarios := remove1 u (usuarios s)\<rparr>"
  from assms(3) have u: "u \<in> set (usuarios s)" "Some (id' (heap s u)) = parseInt idp"
    by (auto simp: existeUsuario_Some_iff)
  from assms(1) have d: "distinct (usuarios s)" by (simp add: wf_server_def)
  from assms(2) have inj: "inj_on (\<lambda>r. id' (heap s r)) (set (usuarios s))"
    by (simp add: records_def distinct_map comp_def)
  have "existeUsuario ?s' idp = None"
  proof -
    have "\<forall>r \<in> set (remove1 u (usuarios s)). Some (id' (heap s r)) \<noteq> parseInt idp"
    proof
      fix r assume r: "r \<in> set (remove1 u (usuarios s))"
      with d have "r \<in> set (usuarios s)" "r \<noteq> u" by auto
      with inj u(1) have "id' (heap s r) \<noteq> id' (heap s u)" by (auto dest: inj_onD)
      with u(2) show "Some (id' (heap s r)) \<noteq> parseInt idp" by (metis option.inject)
    qed
    then show ?thesis by (simp add: existeUsuario_None_iff)
  qed
  then show ?thesis
    using assms(3) by (simp add: delete_usuarios_id_Some get_usuarios_id_None)
qed

text \<open>
  C6 asks that after a DELETE of an id that is present, a GET of that id is answered
  with 404. With the two records of id 4 that the run above produces, DELETE of id 4
  removes and returns the first of them, and the GET that follows is answered with
  status 200 and the second.
\<close>

theorem get_after_delete_finds_other_record:
  "res (handle (run usuarios0 [DELETE_usuarios_id ''1'', POST_usuarios (JString ''Bob'')])
        (DELETE_usuarios_id ''4'')) =
     \<lparr>statusCode = 200, sent = Some (200, Json \<lparr>id' = 4, nombre = JString ''Luis''\<rparr>),
      headers_sent_error = False\<rparr> \<and>
   res (handle
         (run usuarios0
            [DELETE_usuarios_id ''1'', POST_usuarios (JString ''Bob''), DELETE_usuarios_id ''4''])
         (GET_usuarios_id ''4'')) =
     \<lparr>statusCode = 200, sent = Some (200, Json \<lparr>id' = 4, nombre = JString ''Bob''\<rparr>),
      headers_sent_error = False\<rparr>"
  by code_simp

end
